theory Spec2Isabelle
  imports Main
begin

section \<open>Commit-Copilot: the \<open>generate\<close> command of \<open>auto_commit/cli.py\<close>\<close>

text \<open>
  The command is one Python function that calls its collaborators (the git operations,
  the credential configuration, the terminal prompts and the LLM client) in a fixed
  order and leaves through \<open>raise typer.Exit(code=...)\<close>, by returning, or with an
  exception that nothing catches. The model runs the function against a record of what
  each collaborator answers and returns the sequence of observable events together with
  the exit code of the process.
\<close>

subsection \<open>Exit codes (cli.py, lines 24 to 33)\<close>

definition EXIT_SUCCESS :: int where "EXIT_SUCCESS = 0"
definition EXIT_NOT_GIT_REPO :: int where "EXIT_NOT_GIT_REPO = 1"
definition EXIT_STAGE_FAILED :: int where "EXIT_STAGE_FAILED = 2"
definition EXIT_NO_CHANGES :: int where "EXIT_NO_CHANGES = 3"
definition EXIT_API_KEY_MISSING :: int where "EXIT_API_KEY_MISSING = 10"
definition EXIT_API_KEY_INVALID :: int where "EXIT_API_KEY_INVALID = 11"
definition EXIT_QUOTA_EXCEEDED :: int where "EXIT_QUOTA_EXCEEDED = 12"
definition EXIT_API_ERROR :: int where "EXIT_API_ERROR = 13"
definition EXIT_COMMIT_FAILED :: int where "EXIT_COMMIT_FAILED = 20"
definition EXIT_UNKNOWN_ERROR :: int where "EXIT_UNKNOWN_ERROR = 99"

subsection \<open>Exceptions\<close>

text \<open>
  Modelled from the spec: the exception classes of \<open>auto_commit.llm_client\<close>, which
  cli.py imports and catches but which are declared in a module that is not part of the
  sources at hand. The spec (section 4.2) gives a closed set of five error kinds, each
  with a message and a machine-readable code. \<open>MarkupError\<close> is the exception that the
  rich console raises for text it cannot parse as markup; \<open>OtherException\<close> stands for
  any further exception. Both are instances of \<open>Exception\<close> and of none of the five.
\<close>

datatype exn_class =
    APIKeyMissingError
  | APIKeyInvalidError
  | APIQuotaExceededError
  | APIRequestError
  | LLMClientError
  | MarkupError
  | OtherException

datatype exn = Exn (exn_kind: exn_class) (exn_str: string) (exn_error_code: string)

text \<open>What the body of the \<open>try\<close> statement can raise: \<open>typer.Exit\<close> or an exception.\<close>

datatype raised = Typer_Exit int | Raised exn

subsection \<open>Collaborators and observable events\<close>

text \<open>
  Every collaborator is called at most once in a run of \<open>generate\<close>, so its behaviour in
  one run is the answer it gives for the arguments it receives. \<open>GEMINI_API_KEY\<close> is
  the module constant of \<open>auto_commit.config\<close> (\<open>None\<close> when nothing is configured).
  \<open>LLMClient\<close> is the constructor (\<open>Some e\<close> when it raises \<open>e\<close>), and
  \<open>generate_commit_message\<close> the method of the constructed client.

  The last two fields belong to the rich library, whose console renders every text it is
  given as markup: \<open>Style_normalize\<close> is \<open>Style.normalize\<close>, the canonical form of a
  style name, and \<open>meta_error\<close> gives the message of the \<open>MarkupError\<close> raised when the
  parameters of an \<open>@\<close> tag cannot be evaluated (\<open>None\<close> when they can).
\<close>

record env =
  is_git_repo :: bool
  stage_all_changes :: bool
  get_git_diff :: "bool \<Rightarrow> string"
  GEMINI_API_KEY :: "string option"
  Prompt_ask :: "string \<Rightarrow> string"
  save_key_to_env :: "string \<Rightarrow> string \<Rightarrow> bool"
  LLMClient :: "string \<Rightarrow> string option \<Rightarrow> string \<Rightarrow> exn option"
  generate_commit_message :: "string \<Rightarrow> string option \<Rightarrow> string \<Rightarrow> string \<Rightarrow> exn + string"
  Confirm_ask :: "string \<Rightarrow> bool"
  commit_changes :: "string \<Rightarrow> bool"
  Style_normalize :: "string \<Rightarrow> string"
  meta_error :: "string \<Rightarrow> string option"

text \<open>
  \<open>console\<close> is \<open>Console(stderr=True)\<close> (line 39): \<open>ConsolePrint\<close>, \<open>ConsolePanel\<close>,
  the status spinner and both prompts (which are given \<open>console=console\<close>) write to the
  error stream, and so does the traceback of an exception that nothing catches.
  \<open>Print\<close> is the builtin \<open>print\<close>, the only writer to standard output.
\<close>

datatype event =
    IsGitRepo
  | StageAllChanges
  | GetGitDiff bool
  | StatusEnter string
  | StatusExit
  | ConsolePrint string
  | ConsolePanel string string string
  | PromptAsk string bool
  | SaveKeyToEnv string string
  | NewLLMClient string "string option" string
  | GenerateCommitMessage string
  | ConfirmAsk string
  | CommitChanges string
  | Print string
  | Traceback string

record outcome =
  trace :: "event list"
  exit_code :: int

definition typer_Exit :: "event list \<Rightarrow> int \<Rightarrow> outcome" where
  "typer_Exit t code = \<lparr>trace = t, exit_code = code\<rparr>"

text \<open>A command function that returns makes the process exit with code 0.\<close>

definition returns :: "event list \<Rightarrow> outcome" where
  "returns t = \<lparr>trace = t, exit_code = 0\<rparr>"

text \<open>
  An exception that leaves the command function is not caught anywhere: the interpreter
  writes the traceback to the error stream and the process exits with code 1.
\<close>

definition uncaught :: "event list \<Rightarrow> exn \<Rightarrow> outcome" where
  "uncaught t e = \<lparr>trace = t @ [Traceback (exn_str e)], exit_code = 1\<rparr>"

text \<open>How the function is left by what propagates out of it.\<close>

definition leave :: "event list \<Rightarrow> raised \<Rightarrow> outcome" where
  "leave t r = (case r of Typer_Exit code \<Rightarrow> typer_Exit t code | Raised e \<Rightarrow> uncaught t e)"

subsection \<open>Console markup (\<open>rich.markup\<close>)\<close>

text \<open>
  \<open>console.print\<close> and \<open>Panel\<close> parse a string as markup before anything is written.
  The parser looks for tags with the regular expression
  \<^verbatim>\<open>((\\*)\[([a-z#/@][^[]*?)])\<close>: a run of backslashes, an opening bracket, a
  character that may start a tag, and then everything up to the first closing bracket,
  with no opening bracket in between. A \<open>char\<close> stands for one character of the Python
  string.
\<close>

definition quote :: string where
  "quote = [CHR 0x27]"

definition tag_start :: "char \<Rightarrow> bool" where
  "tag_start c = (c \<in> set ''abcdefghijklmnopqrstuvwxyz#/@'')"

text \<open>
  A match of the expression at the head of \<open>s\<close>: the number of backslashes and the text
  of the tag. The backslashes matched are the whole run, since a bracket has to follow.
\<close>

definition match_tag :: "string \<Rightarrow> (nat \<times> string) option" where
  "match_tag s =
     (let escapes = takeWhile (\<lambda>c. c = CHR 0x5C) s
      in case dropWhile (\<lambda>c. c = CHR 0x5C) s of
           c1 # c2 # body \<Rightarrow>
             if c1 = CHR ''['' \<and> tag_start c2 then
               (case dropWhile (\<lambda>c. c \<noteq> CHR '']'' \<and> c \<noteq> CHR ''['') body of
                  [] \<Rightarrow> None
                | c3 # _ \<Rightarrow>
                    if c3 = CHR '']'' then
                      Some (length escapes,
                            c2 # takeWhile (\<lambda>c. c \<noteq> CHR '']'' \<and> c \<noteq> CHR ''['') body)
                    else None)
             else None
         | _ \<Rightarrow> None)"

text \<open>
  \<open>_parse\<close>, reduced to the tags it yields and their positions (\<open>finditer\<close> takes the
  leftmost match and goes on after it). An odd number of backslashes escapes the tag,
  which is then plain text; an even number leaves it a tag, at the position after them.
\<close>

fun scan :: "nat \<Rightarrow> string \<Rightarrow> (nat \<times> string) list" where
  "scan position [] = []"
| "scan position (c # cs) =
     (case match_tag (c # cs) of
        None \<Rightarrow> scan (Suc position) cs
      | Some (k, tag_text) \<Rightarrow>
          (if even k then [(position + k, tag_text)] else [])
          @ scan (position + k + length tag_text + 2)
              (drop (k + length tag_text + 2) (c # cs)))"

text \<open>\<open>str(position)\<close>, \<open>str.partition("=")\<close> and \<open>str.strip()\<close>.\<close>

fun decimal :: "nat \<Rightarrow> string" where
  "decimal n =
     (if n < 10 then [''0123456789'' ! n]
      else decimal (n div 10) @ [''0123456789'' ! (n mod 10)])"

definition partition_eq :: "string \<Rightarrow> string \<times> string option" where
  "partition_eq s =
     (takeWhile (\<lambda>c. c \<noteq> CHR ''='') s,
      case dropWhile (\<lambda>c. c \<noteq> CHR ''='') s of [] \<Rightarrow> None | _ # parameters \<Rightarrow> Some parameters)"

definition whitespace :: "char \<Rightarrow> bool" where
  "whitespace c =
     (c \<in> set [CHR 0x09, CHR 0x0A, CHR 0x0B, CHR 0x0C, CHR 0x0D, CHR 0x1C, CHR 0x1D,
               CHR 0x1E, CHR 0x1F, CHR 0x20, CHR 0x85, CHR 0xA0])"

definition strip :: "string \<Rightarrow> string" where
  "strip s = rev (dropWhile whitespace (rev (dropWhile whitespace s)))"

text \<open>
  \<open>pop_style\<close>: the style stack has its top at the head; the topmost tag of the given
  name is taken out.
\<close>

fun pop_style ::
  "string \<Rightarrow> (string \<times> string option) list
     \<Rightarrow> ((string \<times> string option) \<times> (string \<times> string option) list) option" where
  "pop_style style_name [] = None"
| "pop_style style_name (tag # style_stack) =
     (if fst tag = style_name then Some (tag, style_stack)
      else (case pop_style style_name style_stack of
              None \<Rightarrow> None
            | Some (found, rest) \<Rightarrow> Some (found, tag # rest)))"

text \<open>Closing an \<open>@\<close> tag that has parameters evaluates them, which may fail.\<close>

definition close_error ::
  "(string \<Rightarrow> string option) \<Rightarrow> string \<times> string option \<Rightarrow> string option" where
  "close_error meta open_tag =
     (if take 1 (fst open_tag) = ''@'' then
        (case snd open_tag of
           None \<Rightarrow> None
         | Some parameters \<Rightarrow> if parameters \<noteq> [] then meta parameters else None)
      else None)"

text \<open>
  \<open>render\<close>, given \<open>Style.normalize\<close> and the evaluation of parameters: the
  message of the \<open>MarkupError\<close> it raises, \<open>None\<close> when the text is rendered. An
  opening tag is pushed under its normalized name; a closing tag with a name needs an
  open tag of that normalized name, one without a name closes the topmost tag.
\<close>

fun render ::
  "(string \<Rightarrow> string) \<Rightarrow> (string \<Rightarrow> string option) \<Rightarrow> (string \<times> string option) list
     \<Rightarrow> (nat \<times> string) list \<Rightarrow> string option" where
  "render normalized meta style_stack [] = None"
| "render normalized meta style_stack ((position, tag_text) # tags) =
     (case partition_eq tag_text of
        (name, parameters) \<Rightarrow>
          if take 1 name = ''/'' then
            (let style_name = strip (drop 1 name) in
             if style_name \<noteq> [] then
               (case pop_style (normalized style_name) style_stack of
                  None \<Rightarrow>
                    Some (''closing tag '' @ quote @ ''['' @ tag_text @ '']'' @ quote
                          @ '' at position '' @ decimal position
                          @ '' doesn'' @ quote @ ''t match any open tag'')
                | Some (open_tag, rest) \<Rightarrow>
                    (case close_error meta open_tag of
                       Some message \<Rightarrow> Some message
                     | None \<Rightarrow> render normalized meta rest tags))
             else
               (case style_stack of
                  [] \<Rightarrow>
                    Some (''closing tag '' @ quote @ ''[/]'' @ quote @ '' at position ''
                          @ decimal position @ '' has nothing to close'')
                | open_tag # rest \<Rightarrow>
                    (case close_error meta open_tag of
                       Some message \<Rightarrow> Some message
                     | None \<Rightarrow> render normalized meta rest tags)))
          else render normalized meta ((normalized name, parameters) # style_stack) tags)"

definition markup_error :: "env \<Rightarrow> string \<Rightarrow> string option" where
  "markup_error env text =
     render (Style_normalize env) (meta_error env) [] (scan 0 text)"

text \<open>
  \<open>console.print(text)\<close> and \<open>console.print(Panel(message, title=..., border_style=...))\<close>:
  the events and the exception raised, if any. The title of the panel is a constant
  without brackets.
\<close>

definition console_print :: "env \<Rightarrow> string \<Rightarrow> event list \<times> exn option" where
  "console_print env text =
     (case markup_error env text of
        None \<Rightarrow> ([ConsolePrint text], None)
      | Some message \<Rightarrow> ([], Some (Exn MarkupError message [])))"

definition console_panel ::
  "env \<Rightarrow> string \<Rightarrow> string \<Rightarrow> string \<Rightarrow> event list \<times> exn option" where
  "console_panel env message title border_style =
     (case markup_error env message of
        None \<Rightarrow> ([ConsolePanel message title border_style], None)
      | Some message' \<Rightarrow> ([], Some (Exn MarkupError message' [])))"

subsection \<open>\<open>print_error\<close> (lines 42 to 45)\<close>

definition print_error :: "env \<Rightarrow> string \<Rightarrow> string option \<Rightarrow> event list \<times> exn option" where
  "print_error env message error_code =
     (let code_prefix =
            (case error_code of
               None \<Rightarrow> []
             | Some c \<Rightarrow> if c \<noteq> [] then ''['' @ c @ ''] '' else [])
      in console_print env (''[bold red]Error:[/bold red] '' @ code_prefix @ message))"

subsection \<open>\<open>generate\<close> (lines 48 to 196)\<close>

text \<open>Python truth value of an optional string: \<open>None\<close> and the empty string are false.\<close>

definition truthy :: "string option \<Rightarrow> bool" where
  "truthy v = (case v of None \<Rightarrow> False | Some s \<Rightarrow> s \<noteq> [])"

text \<open>
  \<open>print_error(...)\<close> followed by \<open>raise typer.Exit(code=...)\<close>, outside the \<open>try\<close>
  statement: when the print raises, the exit is not reached. \<open>after\<close> are the events of
  leaving an enclosing \<open>with\<close> block.
\<close>

definition error_exit ::
  "event list \<Rightarrow> event list \<times> exn option \<Rightarrow> event list \<Rightarrow> int \<Rightarrow> outcome" where
  "error_exit t printed after code =
     (case printed of
        (p, None) \<Rightarrow> typer_Exit (t @ p @ after) code
      | (p, Some e) \<Rightarrow> uncaught (t @ p @ after) e)"

text \<open>
  The body of the \<open>try\<close> statement (lines 141 to 174): the events it produces and what
  it raises, \<open>None\<close> when it completes. The text of the status spinner is a constant
  here, since the provider has been checked before.
\<close>

definition try_body ::
  "env \<Rightarrow> string \<Rightarrow> string option \<Rightarrow> bool \<Rightarrow> bool \<Rightarrow> string \<Rightarrow> string
     \<Rightarrow> event list \<times> raised option" where
  "try_body env provider model yes print_only current_key diff =
     (if print_only then
        (case LLMClient env provider model current_key of
           Some e \<Rightarrow> ([NewLLMClient provider model current_key], Some (Raised e))
         | None \<Rightarrow>
            (case generate_commit_message env provider model current_key diff of
               Inl e \<Rightarrow>
                 ([NewLLMClient provider model current_key, GenerateCommitMessage diff],
                  Some (Raised e))
             | Inr message \<Rightarrow>
                 ([NewLLMClient provider model current_key, GenerateCommitMessage diff,
                   Print message], None)))
      else
        (let status = StatusEnter (''[bold green]Generating commit message with '' @ provider
                                     @ ''...[/bold green]'')
         in case LLMClient env provider model current_key of
           Some e \<Rightarrow>
             ([status, NewLLMClient provider model current_key, StatusExit], Some (Raised e))
         | None \<Rightarrow>
            (case generate_commit_message env provider model current_key diff of
               Inl e \<Rightarrow>
                 ([status, NewLLMClient provider model current_key,
                   GenerateCommitMessage diff, StatusExit], Some (Raised e))
             | Inr message \<Rightarrow>
                 (let called = [status, NewLLMClient provider model current_key,
                                GenerateCommitMessage diff, StatusExit]
                  in case console_panel env message ''Generated Commit Message'' ''green'' of
                    (p, Some e) \<Rightarrow> (called @ p, Some (Raised e))
                  | (p, None) \<Rightarrow>
                     (let shown = called @ p;
                          asked = (if yes then []
                                   else [ConfirmAsk ''Do you want to commit with this message?'']);
                          should_commit =
                            (if yes then True
                             else Confirm_ask env ''Do you want to commit with this message?'')
                      in if should_commit then
                           (if commit_changes env message then
                              (case console_print env
                                      ''[bold green]Success![/bold green] Changes committed.'' of
                                 (p', r) \<Rightarrow>
                                   (shown @ asked @ [CommitChanges message] @ p',
                                    map_option Raised r))
                            else
                              (case print_error env ''Failed to commit changes.''
                                      (Some ''COMMIT_FAILED'') of
                                 (p', None) \<Rightarrow>
                                   (shown @ asked @ [CommitChanges message] @ p',
                                    Some (Typer_Exit EXIT_COMMIT_FAILED))
                               | (p', Some e) \<Rightarrow>
                                   (shown @ asked @ [CommitChanges message] @ p',
                                    Some (Raised e))))
                         else
                           (case console_print env ''[yellow]Operation aborted.[/yellow]'' of
                              (p', r) \<Rightarrow> (shown @ asked @ p', map_option Raised r)))))))"

text \<open>
  The \<open>except\<close> clauses (lines 176 to 196), in the order of the source: the events of
  the handler and what leaves the \<open>try\<close> statement. Each handler calls \<open>print_error\<close>
  and then raises \<open>typer.Exit\<close>; an exception raised by \<open>print_error\<close> inside a handler
  is not caught by the clauses that follow.
\<close>

definition handler :: "event list \<times> exn option \<Rightarrow> int \<Rightarrow> event list \<times> raised" where
  "handler printed code =
     (case printed of
        (p, None) \<Rightarrow> (p, Typer_Exit code)
      | (p, Some e) \<Rightarrow> (p, Raised e))"

fun handlers :: "env \<Rightarrow> raised \<Rightarrow> event list \<times> raised" where
  "handlers env (Raised (Exn APIKeyMissingError s c)) =
     handler (print_error env s (Some c)) EXIT_API_KEY_MISSING"
| "handlers env (Raised (Exn APIKeyInvalidError s c)) =
     handler (print_error env s (Some c)) EXIT_API_KEY_INVALID"
| "handlers env (Raised (Exn APIQuotaExceededError s c)) =
     handler (print_error env s (Some c)) EXIT_QUOTA_EXCEEDED"
| "handlers env (Raised (Exn APIRequestError s c)) =
     handler (print_error env s (Some c)) EXIT_API_ERROR"
| "handlers env (Raised (Exn LLMClientError s c)) =
     handler (print_error env s (Some c)) EXIT_UNKNOWN_ERROR"
| "handlers env (Typer_Exit code) = ([], Typer_Exit code)"
| "handlers env (Raised (Exn MarkupError s c)) =
     handler (print_error env (''Unexpected error: '' @ s) (Some ''UNKNOWN''))
       EXIT_UNKNOWN_ERROR"
| "handlers env (Raised (Exn OtherException s c)) =
     handler (print_error env (''Unexpected error: '' @ s) (Some ''UNKNOWN''))
       EXIT_UNKNOWN_ERROR"

text \<open>The \<open>try\<close> statement as a whole, after the events \<open>t\<close> that came before it.\<close>

definition try_generate ::
  "event list \<Rightarrow> env \<Rightarrow> string \<Rightarrow> string option \<Rightarrow> bool \<Rightarrow> bool \<Rightarrow> string \<Rightarrow> string
     \<Rightarrow> outcome" where
  "try_generate t env provider model yes print_only current_key diff =
     (case try_body env provider model yes print_only current_key diff of
        (t', None) \<Rightarrow> returns (t @ t')
      | (t', Some r) \<Rightarrow> (case handlers env r of (t'', r') \<Rightarrow> leave (t @ t' @ t'') r'))"

text \<open>
  The events of the two sections that stage and read the changes (lines 78 to 94); the
  interactive mode wraps each call in a status spinner, the print-only mode does not.
  When staging fails the spinner is still open: the error is printed inside the
  \<open>with\<close> block.
\<close>

definition stage_events :: "bool \<Rightarrow> bool \<Rightarrow> event list" where
  "stage_events print_only staged_ok =
     (if \<not> print_only then
        [StatusEnter ''[bold green]Staging all changes...[/bold green]'', StageAllChanges]
        @ (if staged_ok then [StatusExit] else [])
      else [StageAllChanges])"

definition diff_events :: "bool \<Rightarrow> event list" where
  "diff_events print_only =
     (if \<not> print_only then
        [StatusEnter ''[bold green]Reading staged changes...[/bold green]'', GetGitDiff True,
         StatusExit]
      else [GetGitDiff True])"

definition generate ::
  "env \<Rightarrow> string \<Rightarrow> string option \<Rightarrow> bool \<Rightarrow> bool \<Rightarrow> bool \<Rightarrow> outcome" where
  "generate env provider model yes staged print_only =
     (if \<not> is_git_repo env then
        error_exit [IsGitRepo]
          (print_error env
             ''Not a git repository. Please run this command inside a git repository.''
             (Some ''NOT_GIT_REPO''))
          [] EXIT_NOT_GIT_REPO
      else if \<not> stage_all_changes env then
        error_exit ([IsGitRepo] @ stage_events print_only False)
          (print_error env ''Failed to stage changes.'' (Some ''STAGE_FAILED''))
          (if \<not> print_only then [StatusExit] else [])
          EXIT_STAGE_FAILED
      else
        (let t = [IsGitRepo] @ stage_events print_only True @ diff_events print_only;
             diff = get_git_diff env True
         in if diff = [] then
              error_exit t
                (print_error env
                   ''No changes found. Make sure you have modified files in the repository.''
                   (Some ''NO_CHANGES''))
                [] EXIT_NO_CHANGES
            else if provider \<noteq> ''gemini'' then
              error_exit t
                (print_error env
                   (''Provider '' @ quote @ provider @ quote @ '' is not supported. Use ''
                    @ quote @ ''gemini'' @ quote @ ''.'')
                   (Some ''UNSUPPORTED_PROVIDER''))
                [] EXIT_UNKNOWN_ERROR
            else
              (let key_name = ''GEMINI_API_KEY'' in
               if \<not> truthy (GEMINI_API_KEY env) then
                 (if print_only then
                    error_exit t
                      (print_error env
                         (key_name @ '' is not set. Please set the environment variable or configure it in VS Code.'')
                         (Some ''API_KEY_MISSING''))
                      [] EXIT_API_KEY_MISSING
                  else
                    (case console_print env (''[yellow]Missing '' @ key_name @ ''.[/yellow]'') of
                       (p, Some e) \<Rightarrow> uncaught (t @ p) e
                     | (p, None) \<Rightarrow>
                        (let question = ''Please enter your '' @ provider @ '' API Key'';
                             t' = t @ p @ [PromptAsk question True];
                             current_key = Prompt_ask env question
                         in if current_key \<noteq> [] then
                              (case console_print env
                                      ''[green]API Key saved successfully to .env[/green]'' of
                                 (p', Some e) \<Rightarrow>
                                   uncaught (t' @ [SaveKeyToEnv key_name current_key] @ p') e
                               | (p', None) \<Rightarrow>
                                   try_generate
                                     (t' @ [SaveKeyToEnv key_name current_key] @ p')
                                     env provider model yes print_only current_key diff)
                            else
                              error_exit t'
                                (print_error env
                                   (key_name @ '' is required to use '' @ provider @ ''.'')
                                   (Some ''API_KEY_MISSING''))
                                [] EXIT_API_KEY_MISSING)))
               else
                 try_generate t env provider model yes print_only
                   (the (GEMINI_API_KEY env)) diff)))"

subsection \<open>\<open>version\<close> (lines 199 to 202)\<close>

text \<open>The text printed has no bracket, so that there is no markup in it to parse.\<close>

definition version :: outcome where
  "version = returns [ConsolePrint ''Auto-Commit v1.0.0'']"

subsection \<open>Observations on a run\<close>

text \<open>What was written to standard output: the arguments of the \<open>print\<close> calls, in order.\<close>

fun stdout_writes :: "event list \<Rightarrow> string list" where
  "stdout_writes [] = []"
| "stdout_writes (Print s # t) = s # stdout_writes t"
| "stdout_writes (_ # t) = stdout_writes t"

text \<open>The text on standard output: \<open>print\<close> ends each of its arguments with a newline.\<close>

definition stdout_text :: "event list \<Rightarrow> string" where
  "stdout_text t = concat (map (\<lambda>s. s @ [CHR 0x0A]) (stdout_writes t))"

fun is_backend_call :: "event \<Rightarrow> bool" where
  "is_backend_call (NewLLMClient _ _ _) = True"
| "is_backend_call (GenerateCommitMessage _) = True"
| "is_backend_call _ = False"

fun is_prompt :: "event \<Rightarrow> bool" where
  "is_prompt (PromptAsk _ _) = True"
| "is_prompt _ = False"

fun is_confirm :: "event \<Rightarrow> bool" where
  "is_confirm (ConfirmAsk _) = True"
| "is_confirm _ = False"

fun is_commit :: "event \<Rightarrow> bool" where
  "is_commit (CommitChanges _) = True"
| "is_commit _ = False"

subsection \<open>Conditions on a run\<close>

text \<open>
  The key the backend is constructed with once the credential step lets the run go on:
  the configured key when it is set, otherwise what the user typed at the prompt.
\<close>

definition resolved_key :: "env \<Rightarrow> string" where
  "resolved_key env =
     (if truthy (GEMINI_API_KEY env) then the (GEMINI_API_KEY env)
      else Prompt_ask env ''Please enter your gemini API Key'')"

text \<open>
  The run gets as far as the \<open>try\<close> statement: the repository check, staging, the
  diff and the provider check pass, and a key is configured or, in interactive mode,
  typed at the prompt.
\<close>

definition reaches_generation :: "env \<Rightarrow> string \<Rightarrow> bool \<Rightarrow> bool" where
  "reaches_generation env provider print_only =
     (is_git_repo env \<and> stage_all_changes env \<and> get_git_diff env True \<noteq> []
      \<and> provider = ''gemini''
      \<and> (truthy (GEMINI_API_KEY env)
           \<or> (\<not> print_only \<and> Prompt_ask env ''Please enter your gemini API Key'' \<noteq> [])))"

text \<open>What the backend answers in such a run: the exception it raises or the message.\<close>

definition backend_result :: "env \<Rightarrow> string option \<Rightarrow> exn + string" where
  "backend_result env model =
     (case LLMClient env ''gemini'' model (resolved_key env) of
        Some e \<Rightarrow> Inl e
      | None \<Rightarrow>
          generate_commit_message env ''gemini'' model (resolved_key env)
            (get_git_diff env True))"

text \<open>The events of such a run before the \<open>try\<close> statement.\<close>

definition before_generation :: "env \<Rightarrow> bool \<Rightarrow> event list" where
  "before_generation env print_only =
     [IsGitRepo] @ stage_events print_only True @ diff_events print_only
     @ (if truthy (GEMINI_API_KEY env) then []
        else [ConsolePrint ''[yellow]Missing GEMINI_API_KEY.[/yellow]'',
              PromptAsk ''Please enter your gemini API Key'' True,
              SaveKeyToEnv ''GEMINI_API_KEY'' (resolved_key env),
              ConsolePrint ''[green]API Key saved successfully to .env[/green]''])"

subsection \<open>Sample environments\<close>

text \<open>
  A repository with one change, a configured key and a backend that answers
  \<open>feat: add X\<close>; the user would type \<open>k2\<close> at the key prompt, declines the commit,
  and both the commit and the saving of a key would fail. The variants differ in one
  answer each: a backend that raises an error whose message has a closing tag, a backend
  that returns a message with a closing tag, no configured key, no changes, no repository.
\<close>

definition sample_env :: env where
  "sample_env =
     \<lparr>is_git_repo = True, stage_all_changes = True,
      get_git_diff = (\<lambda>staged. ''+x''),
      GEMINI_API_KEY = Some ''k1'',
      Prompt_ask = (\<lambda>q. ''k2''),
      save_key_to_env = (\<lambda>name v. False),
      LLMClient = (\<lambda>provider model key. None),
      generate_commit_message = (\<lambda>provider model key diff. Inr ''feat: add X''),
      Confirm_ask = (\<lambda>q. False),
      commit_changes = (\<lambda>message. False),
      Style_normalize = (\<lambda>style. style),
      meta_error = (\<lambda>parameters. None)\<rparr>"

definition invalid_key_env :: env where
  "invalid_key_env =
     sample_env\<lparr>generate_commit_message :=
       (\<lambda>provider model key diff.
          Inl (Exn APIKeyInvalidError ''bad [/key]'' ''API_KEY_INVALID''))\<rparr>"

definition close_tag_env :: env where
  "close_tag_env =
     sample_env\<lparr>generate_commit_message :=
       (\<lambda>provider model key diff. Inr ''fix: close [/] tag'')\<rparr>"

definition no_key_env :: env where
  "no_key_env = sample_env\<lparr>GEMINI_API_KEY := None\<rparr>"

definition no_changes_env :: env where
  "no_changes_env = sample_env\<lparr>get_git_diff := (\<lambda>staged. [])\<rparr>"


section \<open>Properties\<close>

lemmas exit_codes =
  EXIT_SUCCESS_def EXIT_NOT_GIT_REPO_def EXIT_STAGE_FAILED_def EXIT_NO_CHANGES_def
  EXIT_API_KEY_MISSING_def EXIT_API_KEY_INVALID_def EXIT_QUOTA_EXCEEDED_def
  EXIT_API_ERROR_def EXIT_COMMIT_FAILED_def EXIT_UNKNOWN_ERROR_def

text \<open>The definitions that evaluate the markup of a given text.\<close>

lemmas markup_defs =
  markup_error_def match_tag_def tag_start_def partition_eq_def strip_def whitespace_def
  close_error_def Let_def

subsection \<open>The constant texts of the program are valid markup\<close>

lemma print_not_git_repo [simp]:
  "print_error env ''Not a git repository. Please run this command inside a git repository.''
     (Some ''NOT_GIT_REPO'')
   = ([ConsolePrint ''[bold red]Error:[/bold red] [NOT_GIT_REPO] Not a git repository. Please run this command inside a git repository.''], None)"
  by (simp add: print_error_def console_print_def markup_defs)

lemma print_stage_failed [simp]:
  "print_error env ''Failed to stage changes.'' (Some ''STAGE_FAILED'')
   = ([ConsolePrint ''[bold red]Error:[/bold red] [STAGE_FAILED] Failed to stage changes.''],
      None)"
  by (simp add: print_error_def console_print_def markup_defs)

lemma print_no_changes [simp]:
  "print_error env ''No changes found. Make sure you have modified files in the repository.''
     (Some ''NO_CHANGES'')
   = ([ConsolePrint ''[bold red]Error:[/bold red] [NO_CHANGES] No changes found. Make sure you have modified files in the repository.''], None)"
  by (simp add: print_error_def console_print_def markup_defs)

lemma print_key_not_set [simp]:
  "print_error env ''GEMINI_API_KEY is not set. Please set the environment variable or configure it in VS Code.''
     (Some ''API_KEY_MISSING'')
   = ([ConsolePrint ''[bold red]Error:[/bold red] [API_KEY_MISSING] GEMINI_API_KEY is not set. Please set the environment variable or configure it in VS Code.''], None)"
  by (simp add: print_error_def console_print_def markup_defs)

lemma print_key_required [simp]:
  "print_error env ''GEMINI_API_KEY is required to use gemini.'' (Some ''API_KEY_MISSING'')
   = ([ConsolePrint ''[bold red]Error:[/bold red] [API_KEY_MISSING] GEMINI_API_KEY is required to use gemini.''], None)"
  by (simp add: print_error_def console_print_def markup_defs)

lemma print_commit_failed [simp]:
  "print_error env ''Failed to commit changes.'' (Some ''COMMIT_FAILED'')
   = ([ConsolePrint ''[bold red]Error:[/bold red] [COMMIT_FAILED] Failed to commit changes.''],
      None)"
  by (simp add: print_error_def console_print_def markup_defs)

lemma print_missing_key [simp]:
  "console_print env ''[yellow]Missing GEMINI_API_KEY.[/yellow]''
   = ([ConsolePrint ''[yellow]Missing GEMINI_API_KEY.[/yellow]''], None)"
  by (simp add: console_print_def markup_defs)

lemma print_key_saved [simp]:
  "console_print env ''[green]API Key saved successfully to .env[/green]''
   = ([ConsolePrint ''[green]API Key saved successfully to .env[/green]''], None)"
  by (simp add: console_print_def markup_defs)

lemma print_success [simp]:
  "console_print env ''[bold green]Success![/bold green] Changes committed.''
   = ([ConsolePrint ''[bold green]Success![/bold green] Changes committed.''], None)"
  by (simp add: console_print_def markup_defs)

lemma print_aborted [simp]:
  "console_print env ''[yellow]Operation aborted.[/yellow]''
   = ([ConsolePrint ''[yellow]Operation aborted.[/yellow]''], None)"
  by (simp add: console_print_def markup_defs)

text \<open>
  The texts of the status spinners, of the prompts and of the panel title are constants
  too (the provider is \<open>gemini\<close> where it is put into them), so that showing them
  cannot raise.
\<close>

lemma status_and_prompt_texts:
  "markup_error env ''[bold green]Staging all changes...[/bold green]'' = None"
  "markup_error env ''[bold green]Reading staged changes...[/bold green]'' = None"
  "markup_error env ''[bold green]Generating commit message with gemini...[/bold green]'' = None"
  "markup_error env ''Please enter your gemini API Key'' = None"
  "markup_error env ''Do you want to commit with this message?'' = None"
  "markup_error env ''Generated Commit Message'' = None"
  "markup_error env ''Auto-Commit v1.0.0'' = None"
  by (simp_all add: markup_defs)

subsection \<open>Leaving the function\<close>

lemma trace_typer_Exit [simp]: "trace (typer_Exit t c) = t"
  by (simp add: typer_Exit_def)

lemma exit_code_typer_Exit [simp]: "exit_code (typer_Exit t c) = c"
  by (simp add: typer_Exit_def)

lemma trace_returns [simp]: "trace (returns t) = t"
  by (simp add: returns_def)

lemma exit_code_returns [simp]: "exit_code (returns t) = 0"
  by (simp add: returns_def)

lemma trace_uncaught [simp]: "trace (uncaught t e) = t @ [Traceback (exn_str e)]"
  by (simp add: uncaught_def)

lemma exit_code_uncaught [simp]: "exit_code (uncaught t e) = 1"
  by (simp add: uncaught_def)

lemma error_exit_printed [simp]:
  "error_exit t (p, None) after code = typer_Exit (t @ p @ after) code"
  by (simp add: error_exit_def)

lemma error_exit_raised [simp]:
  "error_exit t (p, Some e) after code = uncaught (t @ p @ after) e"
  by (simp add: error_exit_def)

lemma console_print_cases:
  "console_print env text = ([ConsolePrint text], None)
   \<or> (\<exists>m. console_print env text = ([], Some (Exn MarkupError m [])))"
  by (simp add: console_print_def split: option.splits)

lemma print_error_cases:
  "(\<exists>s. print_error env message error_code = ([ConsolePrint s], None))
   \<or> (\<exists>m. print_error env message error_code = ([], Some (Exn MarkupError m [])))"
  using console_print_cases by (auto simp add: print_error_def Let_def)

lemma console_panel_cases:
  "console_panel env message title border = ([ConsolePanel message title border], None)
   \<or> (\<exists>m. console_panel env message title border = ([], Some (Exn MarkupError m [])))"
  by (simp add: console_panel_def split: option.splits)

subsection \<open>Reaching the backend\<close>

lemma generate_reaches:
  assumes "reaches_generation env provider print_only"
  shows "generate env provider model yes staged print_only =
           try_generate (before_generation env print_only) env ''gemini'' model yes print_only
             (resolved_key env) (get_git_diff env True)"
  using assms
  by (auto simp add: generate_def reaches_generation_def before_generation_def
        resolved_key_def Let_def)

lemma try_body_raises:
  assumes "backend_result env model = Inl e"
  shows "snd (try_body env ''gemini'' model yes print_only (resolved_key env)
                (get_git_diff env True)) = Some (Raised e)"
  using assms
  by (auto simp add: try_body_def backend_result_def Let_def split: option.splits sum.splits)

lemma handlers_printed:
  assumes "snd (print_error env (exn_str e) (Some (exn_error_code e))) = None"
    and "exn_kind e \<noteq> MarkupError" and "exn_kind e \<noteq> OtherException"
  shows "snd (handlers env (Raised e)) =
     Typer_Exit (case exn_kind e of
        APIKeyMissingError \<Rightarrow> 10 | APIKeyInvalidError \<Rightarrow> 11
      | APIQuotaExceededError \<Rightarrow> 12 | APIRequestError \<Rightarrow> 13
      | LLMClientError \<Rightarrow> 99 | MarkupError \<Rightarrow> 99 | OtherException \<Rightarrow> 99)"
  using assms
  by (cases e; cases "exn_kind e")
     (auto simp add: exit_codes handler_def split: prod.splits option.splits)

lemma exit_code_try_generate:
  "exit_code (try_generate t env provider model yes print_only key diff) =
     (case snd (try_body env provider model yes print_only key diff) of
        None \<Rightarrow> 0
      | Some r \<Rightarrow> (case snd (handlers env r) of Typer_Exit code \<Rightarrow> code | Raised e \<Rightarrow> 1))"
  by (simp add: try_generate_def leave_def split: prod.splits option.splits raised.splits)

text \<open>
  What the \<open>except\<close> clauses do by design: when the backend raises one of the five
  kinds and the message of the exception is printed, the exit code is the one of the kind.
\<close>

lemma backend_error_exit_code_printed:
  assumes "reaches_generation env provider print_only"
    and "backend_result env model = Inl e"
    and "exn_kind e \<noteq> MarkupError" and "exn_kind e \<noteq> OtherException"
    and "snd (print_error env (exn_str e) (Some (exn_error_code e))) = None"
  shows "exit_code (generate env provider model yes staged print_only) =
           (case exn_kind e of
              APIKeyMissingError \<Rightarrow> 10
            | APIKeyInvalidError \<Rightarrow> 11
            | APIQuotaExceededError \<Rightarrow> 12
            | APIRequestError \<Rightarrow> 13
            | LLMClientError \<Rightarrow> 99
            | MarkupError \<Rightarrow> 99
            | OtherException \<Rightarrow> 99)"
  by (simp add: generate_reaches[OF assms(1)] exit_code_try_generate
        try_body_raises[OF assms(2)] handlers_printed[OF assms(5,3,4)])

subsection \<open>Backend errors and exit codes\<close>

text \<open>
  C1. Each handler prints the message of the exception as console markup (line 45) before
  it raises \<open>typer.Exit\<close> with the code of the kind. The claim holds whenever that
  message is printed (\<open>backend_error_exit_code_printed\<close>), and fails on the code as it
  is when the message is not valid markup: in a run in which the backend raises
  \<open>APIKeyInvalidError\<close> with the message \<open>bad [/key]\<close>, \<open>print_error\<close> raises
  \<open>MarkupError\<close> inside the \<open>except\<close> clause, \<open>raise typer.Exit(11)\<close> is not
  reached and the process exits with code 1.
\<close>

theorem invalid_key_message_exit_code:
  "backend_result invalid_key_env None
     = Inl (Exn APIKeyInvalidError ''bad [/key]'' ''API_KEY_INVALID'')
   \<and> exit_code (generate invalid_key_env ''gemini'' None False True True) = 1
   \<and> exit_code (generate invalid_key_env ''gemini'' None False True True)
       \<noteq> EXIT_API_KEY_INVALID"
proof -
  have r: "reaches_generation invalid_key_env ''gemini'' True"
    by (simp add: reaches_generation_def invalid_key_env_def sample_env_def truthy_def)
  have b: "backend_result invalid_key_env None
             = Inl (Exn APIKeyInvalidError ''bad [/key]'' ''API_KEY_INVALID'')"
    by (simp add: backend_result_def invalid_key_env_def sample_env_def)
  have p: "print_error invalid_key_env ''bad [/key]'' (Some ''API_KEY_INVALID'')
             = ([], Some (Exn MarkupError
                 (''closing tag '' @ quote @ ''[/key]'' @ quote @ '' at position 50 doesn''
                  @ quote @ ''t match any open tag'') []))"
    by (simp add: print_error_def console_print_def markup_defs quote_def)
  have "exit_code (generate invalid_key_env ''gemini'' None False True True) = 1"
    by (simp add: generate_reaches[OF r] exit_code_try_generate try_body_raises[OF b]
          handler_def p)
  then show ?thesis
    using b by (simp add: exit_codes)
qed

subsection \<open>Print-only mode\<close>

lemma try_body_print_only:
  assumes "backend_result env model = Inr message"
  shows "try_body env ''gemini'' model yes True (resolved_key env) (get_git_diff env True) =
           ([NewLLMClient ''gemini'' model (resolved_key env),
             GenerateCommitMessage (get_git_diff env True), Print message], None)"
  using assms
  by (auto simp add: try_body_def backend_result_def split: option.splits sum.splits)

text \<open>
  C2. In a print-only run in which the repository check, staging, the diff, the provider
  check, the key lookup and the backend all succeed, the one thing written to standard
  output is the generated message (by a single \<open>print\<close>, which ends the line), the
  exit code is 0, and the run neither commits nor asks for a confirmation or a key.
\<close>

theorem print_only_success:
  assumes "is_git_repo env" and "stage_all_changes env" and "get_git_diff env True \<noteq> []"
    and "provider = ''gemini''" and "truthy (GEMINI_API_KEY env)"
    and "backend_result env model = Inr message"
  shows "stdout_writes (trace (generate env provider model yes staged True)) = [message]
         \<and> stdout_text (trace (generate env provider model yes staged True))
             = message @ [CHR 0x0A]
         \<and> exit_code (generate env provider model yes staged True) = 0
         \<and> \<not> (\<exists>ev \<in> set (trace (generate env provider model yes staged True)).
                 is_commit ev \<or> is_confirm ev \<or> is_prompt ev)"
proof -
  have r: "reaches_generation env provider True"
    using assms by (simp add: reaches_generation_def)
  have g: "generate env provider model yes staged True =
             returns ([IsGitRepo, StageAllChanges, GetGitDiff True,
                       NewLLMClient ''gemini'' model (resolved_key env),
                       GenerateCommitMessage (get_git_diff env True), Print message])"
    using assms(5)
    by (simp add: generate_reaches[OF r] try_generate_def try_body_print_only[OF assms(6)]
          before_generation_def stage_events_def diff_events_def)
  show ?thesis
    by (simp add: g stdout_text_def)
qed

theorem print_only_success_witness:
  "is_git_repo sample_env \<and> stage_all_changes sample_env
   \<and> get_git_diff sample_env True \<noteq> [] \<and> truthy (GEMINI_API_KEY sample_env)
   \<and> backend_result sample_env None = Inr ''feat: add X''
   \<and> stdout_writes (trace (generate sample_env ''gemini'' None False True True))
       = [''feat: add X'']
   \<and> exit_code (generate sample_env ''gemini'' None False True True) = 0"
proof -
  have h: "is_git_repo sample_env" "stage_all_changes sample_env"
    "get_git_diff sample_env True \<noteq> []" "''gemini'' = ''gemini''"
    "truthy (GEMINI_API_KEY sample_env)"
    "backend_result sample_env None = Inr ''feat: add X''"
    by (simp_all add: sample_env_def truthy_def backend_result_def)
  show ?thesis
    using h print_only_success[OF h, of False True] by simp
qed

text \<open>
  C3. In a print-only run in which the repository check, staging, the diff and the
  provider check pass and no key is configured, the exit code is 10, no key prompt is
  issued and nothing is written to standard output.
\<close>

theorem print_only_missing_key:
  assumes "is_git_repo env" and "stage_all_changes env" and "get_git_diff env True \<noteq> []"
    and "provider = ''gemini''" and "\<not> truthy (GEMINI_API_KEY env)"
  shows "exit_code (generate env provider model yes staged True) = 10
         \<and> \<not> (\<exists>ev \<in> set (trace (generate env provider model yes staged True)). is_prompt ev)
         \<and> stdout_writes (trace (generate env provider model yes staged True)) = []"
  using assms
  by (simp add: generate_def Let_def exit_codes stage_events_def diff_events_def)

theorem print_only_missing_key_witness:
  "is_git_repo no_key_env \<and> stage_all_changes no_key_env
   \<and> get_git_diff no_key_env True \<noteq> [] \<and> \<not> truthy (GEMINI_API_KEY no_key_env)
   \<and> exit_code (generate no_key_env ''gemini'' None False True True) = 10
   \<and> stdout_writes (trace (generate no_key_env ''gemini'' None False True True)) = []"
proof -
  have h: "is_git_repo no_key_env" "stage_all_changes no_key_env"
    "get_git_diff no_key_env True \<noteq> []" "''gemini'' = ''gemini''"
    "\<not> truthy (GEMINI_API_KEY no_key_env)"
    by (simp_all add: no_key_env_def sample_env_def truthy_def)
  show ?thesis
    using h print_only_missing_key[OF h, of None False True] by simp
qed

subsection \<open>Runs that stop before the backend\<close>

text \<open>
  C4. When the repository check and staging succeed and the staged diff is the empty
  string, the exit code is 3 and the backend is neither constructed nor called.
\<close>

theorem empty_diff_no_backend:
  assumes "is_git_repo env" and "stage_all_changes env" and "get_git_diff env True = []"
  shows "exit_code (generate env provider model yes staged print_only) = 3
         \<and> \<not> (\<exists>ev \<in> set (trace (generate env provider model yes staged print_only)).
                 is_backend_call ev)"
  using assms
  by (simp add: generate_def Let_def exit_codes stage_events_def diff_events_def)

theorem empty_diff_no_backend_witness:
  "is_git_repo no_changes_env \<and> stage_all_changes no_changes_env
   \<and> get_git_diff no_changes_env True = []
   \<and> exit_code (generate no_changes_env ''gemini'' None False True False) = 3"
proof -
  have h: "is_git_repo no_changes_env" "stage_all_changes no_changes_env"
    "get_git_diff no_changes_env True = []"
    by (simp_all add: no_changes_env_def sample_env_def)
  show ?thesis
    using h empty_diff_no_backend[OF h, of "''gemini''" None False True False] by simp
qed

subsection \<open>Unsupported providers\<close>





text \<open>
  The slip that the amended statement leaves out: a provider string with a closing tag
  makes \<open>print_error\<close> raise, and the process exits with code 1.
\<close>

lemma unsupported_provider_markup:
  "exit_code (generate sample_env ''[/x]'' None False True False) = 1"
  by (simp add: generate_def sample_env_def quote_def print_error_def
        console_print_def markup_defs)

subsection \<open>The key prompt of the interactive mode\<close>

lemma handler_events:
  "ev \<in> set (fst (handler (print_error env message error_code) code))
     \<Longrightarrow> \<exists>s. ev = ConsolePrint s"
  using print_error_cases[of env message error_code]
  by (auto simp add: handler_def)

lemma handlers_events:
  "ev \<in> set (fst (handlers env r)) \<Longrightarrow> \<exists>s. ev = ConsolePrint s"
proof (cases r)
  case (Typer_Exit code)
  then show "ev \<in> set (fst (handlers env r)) \<Longrightarrow> ?thesis" by simp
next
  case (Raised e)
  then show "ev \<in> set (fst (handlers env r)) \<Longrightarrow> ?thesis"
    by (cases e; cases "exn_kind e") (auto dest: handler_events)
qed

lemma trace_try_generate:
  "\<exists>t'. trace (try_generate t env provider model yes print_only key diff)
           = t @ fst (try_body env provider model yes print_only key diff) @ t'
         \<and> (\<forall>ev \<in> set t'. \<exists>s. ev = ConsolePrint s \<or> ev = Traceback s)"
proof (cases "try_body env provider model yes print_only key diff")
  case (Pair t1 r)
  show ?thesis
  proof (cases r)
    case None
    with Pair show ?thesis by (simp add: try_generate_def)
  next
    case (Some x)
    obtain t2 r' where h: "handlers env x = (t2, r')" by (cases "handlers env x")
    have c: "\<forall>ev \<in> set t2. \<exists>s. ev = ConsolePrint s"
      using handlers_events[of _ env x] h by simp
    show ?thesis
    proof (cases r')
      case (Typer_Exit code)
      with Pair Some h c show ?thesis
        by (auto simp add: try_generate_def leave_def)
    next
      case (Raised e)
      with Pair Some h c show ?thesis
        by (auto simp add: try_generate_def leave_def)
    qed
  qed
qed

lemma try_body_constructs:
  "NewLLMClient provider model key
     \<in> set (fst (try_body env provider model yes print_only key diff))"
  by (simp add: try_body_def Let_def console_panel_def console_print_def print_error_def
        split: option.splits sum.splits prod.splits)

lemma try_body_no_prompt:
  "filter is_prompt (fst (try_body env provider model yes print_only key diff)) = []"
  by (auto simp add: try_body_def Let_def console_panel_def console_print_def print_error_def
        split: option.splits sum.splits prod.splits)

lemma no_prompt_console:
  "\<forall>ev \<in> set t. \<exists>s. ev = ConsolePrint s \<or> ev = Traceback s \<Longrightarrow> filter is_prompt t = []"
  by (induction t) auto

lemma try_generate_prompts:
  "filter is_prompt (trace (try_generate t env provider model yes print_only key diff))
     = filter is_prompt t"
proof -
  obtain t' where
    "trace (try_generate t env provider model yes print_only key diff)
       = t @ fst (try_body env provider model yes print_only key diff) @ t'"
    and "\<forall>ev \<in> set t'. \<exists>s. ev = ConsolePrint s \<or> ev = Traceback s"
    using trace_try_generate by blast
  then show ?thesis
    by (simp add: try_body_no_prompt no_prompt_console)
qed

lemma try_generate_keeps:
  "set t \<subseteq> set (trace (try_generate t env provider model yes print_only key diff))"
  using trace_try_generate[of t env provider model yes print_only key diff] by auto

lemma try_generate_constructs:
  "NewLLMClient provider model key
     \<in> set (trace (try_generate t env provider model yes print_only key diff))"
  using trace_try_generate[of t env provider model yes print_only key diff]
    try_body_constructs[of provider model key env yes print_only diff] by auto

lemma generate_empty_entry:
  assumes "is_git_repo env" and "stage_all_changes env" and "get_git_diff env True \<noteq> []"
    and "\<not> truthy (GEMINI_API_KEY env)"
    and "Prompt_ask env ''Please enter your gemini API Key'' = []"
  shows "generate env ''gemini'' model yes staged False =
           typer_Exit
             ([IsGitRepo] @ stage_events False True @ diff_events False
              @ [ConsolePrint ''[yellow]Missing GEMINI_API_KEY.[/yellow]'',
                 PromptAsk ''Please enter your gemini API Key'' True,
                 ConsolePrint ''[bold red]Error:[/bold red] [API_KEY_MISSING] GEMINI_API_KEY is required to use gemini.''])
             EXIT_API_KEY_MISSING"
  using assms by (simp add: generate_def Let_def)

text \<open>
  C6. In an interactive run that gets to the key lookup with no key configured, the key
  prompt is issued exactly once. An empty entry ends the run with exit code 10, before
  the backend is constructed; a non-empty entry is handed to \<open>save_key_to_env\<close> and
  the run goes on to construct the backend with the entered key.
\<close>

theorem interactive_key_prompt:
  assumes "is_git_repo env" and "stage_all_changes env" and "get_git_diff env True \<noteq> []"
    and "provider = ''gemini''" and "\<not> truthy (GEMINI_API_KEY env)"
  shows "length (filter is_prompt (trace (generate env provider model yes staged False))) = 1
         \<and> (Prompt_ask env ''Please enter your gemini API Key'' = [] \<longrightarrow>
              exit_code (generate env provider model yes staged False) = 10
              \<and> \<not> (\<exists>ev \<in> set (trace (generate env provider model yes staged False)).
                      is_backend_call ev))
         \<and> (Prompt_ask env ''Please enter your gemini API Key'' \<noteq> [] \<longrightarrow>
              SaveKeyToEnv ''GEMINI_API_KEY'' (Prompt_ask env ''Please enter your gemini API Key'')
                \<in> set (trace (generate env provider model yes staged False))
              \<and> NewLLMClient ''gemini'' model (Prompt_ask env ''Please enter your gemini API Key'')
                \<in> set (trace (generate env provider model yes staged False)))"
proof (cases "Prompt_ask env ''Please enter your gemini API Key'' = []")
  case True
  show ?thesis
    using True assms(4)
    by (simp add: generate_empty_entry[OF assms(1-3) assms(5) True] stage_events_def
          diff_events_def exit_codes)
next
  case False
  have r: "reaches_generation env provider False"
    using assms False by (simp add: reaches_generation_def)
  have k: "resolved_key env = Prompt_ask env ''Please enter your gemini API Key''"
    using assms(5) by (simp add: resolved_key_def)
  have s: "SaveKeyToEnv ''GEMINI_API_KEY'' (Prompt_ask env ''Please enter your gemini API Key'')
             \<in> set (before_generation env False)"
    using assms(5) by (simp add: before_generation_def k)
  have p: "filter is_prompt (before_generation env False)
             = [PromptAsk ''Please enter your gemini API Key'' True]"
    using assms(5) by (simp add: before_generation_def stage_events_def diff_events_def)
  let ?g = "generate env provider model yes staged False"
  let ?a = "Prompt_ask env ''Please enter your gemini API Key''"
  have g: "?g = try_generate (before_generation env False) env ''gemini'' model yes False
                  ?a (get_git_diff env True)"
    by (simp add: generate_reaches[OF r] k)
  have c1: "length (filter is_prompt (trace ?g)) = 1"
    by (simp add: g try_generate_prompts p)
  have c2: "SaveKeyToEnv ''GEMINI_API_KEY'' ?a \<in> set (trace ?g)"
    using s try_generate_keeps[of "before_generation env False" env "''gemini''" model yes
        False ?a "get_git_diff env True"]
    by (auto simp add: g)
  have c3: "NewLLMClient ''gemini'' model ?a \<in> set (trace ?g)"
    by (simp add: g try_generate_constructs)
  show ?thesis
    using False c1 c2 c3 by simp
qed

theorem interactive_key_prompt_witness:
  "is_git_repo no_key_env \<and> stage_all_changes no_key_env
   \<and> get_git_diff no_key_env True \<noteq> [] \<and> \<not> truthy (GEMINI_API_KEY no_key_env)
   \<and> Prompt_ask no_key_env ''Please enter your gemini API Key'' = ''k2''
   \<and> length (filter is_prompt (trace (generate no_key_env ''gemini'' None False True False))) = 1
   \<and> SaveKeyToEnv ''GEMINI_API_KEY'' ''k2''
        \<in> set (trace (generate no_key_env ''gemini'' None False True False))
   \<and> NewLLMClient ''gemini'' None ''k2''
        \<in> set (trace (generate no_key_env ''gemini'' None False True False))"
proof -
  have h: "is_git_repo no_key_env" "stage_all_changes no_key_env"
    "get_git_diff no_key_env True \<noteq> []" "''gemini'' = ''gemini''"
    "\<not> truthy (GEMINI_API_KEY no_key_env)"
    by (simp_all add: no_key_env_def sample_env_def truthy_def)
  have a: "Prompt_ask no_key_env ''Please enter your gemini API Key'' = ''k2''"
    by (simp add: no_key_env_def sample_env_def)
  show ?thesis
    using h a interactive_key_prompt[OF h, of None False True] by simp
qed

subsection \<open>Confirmation and commit\<close>







text \<open>
  A message that is not valid markup never gets to the confirmation: the panel raises,
  the handler of \<open>except Exception\<close> raises again on the text of the error, and the
  process exits with code 1 without a confirmation or a commit.
\<close>

lemma panel_markup:
  "exit_code (generate close_tag_env ''gemini'' None False True False) = 1
   \<and> \<not> (\<exists>ev \<in> set (trace (generate close_tag_env ''gemini'' None False True False)).
          is_confirm ev \<or> is_commit ev)"
  by (simp add: generate_def close_tag_env_def sample_env_def truthy_def stage_events_def
        diff_events_def try_generate_def try_body_def console_panel_def leave_def
        handler_def quote_def print_error_def console_print_def markup_defs)

subsection \<open>The \<open>staged\<close> flag\<close>

lemma stdout_writes_append:
  "stdout_writes (a @ b) = stdout_writes a @ stdout_writes b"
  by (induction a rule: stdout_writes.induct) simp_all

lemma generate_stopped:
  assumes "\<not> reaches_generation env provider print_only"
  shows "stdout_writes (trace (generate env provider model yes staged print_only)) = []
         \<and> (\<forall>b. GetGitDiff b \<in> set (trace (generate env provider model yes staged print_only))
                \<longrightarrow> b)
         \<and> (GetGitDiff True \<in> set (trace (generate env provider model yes staged print_only))
                \<longrightarrow> StageAllChanges \<in> set (takeWhile (\<lambda>ev. ev \<noteq> GetGitDiff True)
                     (trace (generate env provider model yes staged print_only))))
         \<and> \<not> (\<exists>ev \<in> set (trace (generate env provider model yes staged print_only)).
                 is_backend_call ev)"
proof -
  let ?text = "''Provider '' @ quote @ provider @ quote @ '' is not supported. Use ''
               @ quote @ ''gemini'' @ quote @ ''.''"
  consider (a) "\<not> is_git_repo env"
    | (b) "is_git_repo env" "\<not> stage_all_changes env"
    | (c) "is_git_repo env" "stage_all_changes env" "get_git_diff env True = []"
    | (d) "is_git_repo env" "stage_all_changes env" "get_git_diff env True \<noteq> []"
          "provider \<noteq> ''gemini''"
    | (e) "is_git_repo env" "stage_all_changes env" "get_git_diff env True \<noteq> []"
          "provider = ''gemini''" "\<not> truthy (GEMINI_API_KEY env)" "print_only"
    | (f) "is_git_repo env" "stage_all_changes env" "get_git_diff env True \<noteq> []"
          "provider = ''gemini''" "\<not> truthy (GEMINI_API_KEY env)" "\<not> print_only"
          "Prompt_ask env ''Please enter your gemini API Key'' = []"
    using assms by (auto simp add: reaches_generation_def)
  then show ?thesis
  proof cases
    case a
    then show ?thesis by (simp add: generate_def)
  next
    case b
    then show ?thesis
      by (simp add: generate_def stage_events_def)
  next
    case c
    then show ?thesis
      by (simp add: generate_def Let_def stage_events_def diff_events_def)
  next
    case d
    consider (printed) s where
        "print_error env ?text (Some ''UNSUPPORTED_PROVIDER'') = ([ConsolePrint s], None)"
      | (raised) m where
        "print_error env ?text (Some ''UNSUPPORTED_PROVIDER'')
           = ([], Some (Exn MarkupError m []))"
      using print_error_cases by blast
    then show ?thesis
    proof cases
      case printed
      with d show ?thesis
        by (simp add: generate_def Let_def stage_events_def diff_events_def)
    next
      case raised
      with d show ?thesis
        by (simp add: generate_def Let_def stage_events_def diff_events_def)
    qed
  next
    case e
    then show ?thesis
      by (simp add: generate_def Let_def stage_events_def diff_events_def)
  next
    case f
    then show ?thesis
      by (simp add: generate_def Let_def stage_events_def diff_events_def)
  qed
qed

lemma try_body_diff_events:
  "GetGitDiff b \<notin> set (fst (try_body env provider model yes print_only key diff))
   \<and> (GenerateCommitMessage d \<in> set (fst (try_body env provider model yes print_only key diff))
        \<longrightarrow> d = diff)"
  by (simp add: try_body_def Let_def console_panel_def console_print_def print_error_def
        split: option.splits sum.splits prod.splits)

lemma before_generation_diff_events:
  "(GetGitDiff b \<in> set (before_generation env print_only) \<longrightarrow> b)
   \<and> GenerateCommitMessage d \<notin> set (before_generation env print_only)
   \<and> StageAllChanges \<in> set (takeWhile (\<lambda>ev. ev \<noteq> GetGitDiff True)
        (before_generation env print_only @ rest))"
  by (simp add: before_generation_def stage_events_def diff_events_def)

text \<open>
  C8. The \<open>staged\<close> flag is inert: two runs that differ only in the flag have the
  same events and the same exit code. Whenever the diff is read it is read with
  \<open>staged=True\<close>, after \<open>stage_all_changes\<close> has been called, and the diff handed to
  the backend is that staged diff.
\<close>

theorem staged_flag_inert:
  "generate env provider model yes staged print_only
     = generate env provider model yes staged' print_only
   \<and> (\<forall>b. GetGitDiff b \<in> set (trace (generate env provider model yes staged print_only))
          \<longrightarrow> b)
   \<and> (GetGitDiff True \<in> set (trace (generate env provider model yes staged print_only))
          \<longrightarrow> StageAllChanges \<in> set (takeWhile (\<lambda>ev. ev \<noteq> GetGitDiff True)
               (trace (generate env provider model yes staged print_only))))
   \<and> (\<forall>d. GenerateCommitMessage d
            \<in> set (trace (generate env provider model yes staged print_only))
          \<longrightarrow> d = get_git_diff env True)"
proof -
  let ?g = "generate env provider model yes staged print_only"
  have same: "?g = generate env provider model yes staged' print_only"
    by (simp add: generate_def)
  have rest: "(\<forall>b. GetGitDiff b \<in> set (trace ?g) \<longrightarrow> b)
     \<and> (GetGitDiff True \<in> set (trace ?g)
          \<longrightarrow> StageAllChanges \<in> set (takeWhile (\<lambda>ev. ev \<noteq> GetGitDiff True) (trace ?g)))
     \<and> (\<forall>d. GenerateCommitMessage d \<in> set (trace ?g) \<longrightarrow> d = get_git_diff env True)"
  proof (cases "reaches_generation env provider print_only")
    case False
    have "\<not> (\<exists>ev \<in> set (trace ?g). is_backend_call ev)"
      using generate_stopped[OF False] by blast
    then have "GenerateCommitMessage d \<notin> set (trace ?g)" for d
      by force
    then show ?thesis
      using generate_stopped[OF False, of model yes staged] by blast
  next
    case True
    let ?body = "fst (try_body env ''gemini'' model yes print_only (resolved_key env)
                        (get_git_diff env True))"
    obtain t' where t: "trace ?g = before_generation env print_only @ ?body @ t'"
      and c: "\<forall>ev \<in> set t'. \<exists>s. ev = ConsolePrint s \<or> ev = Traceback s"
      using trace_try_generate[of "before_generation env print_only" env "''gemini''" model
          yes print_only "resolved_key env" "get_git_diff env True"]
      by (auto simp add: generate_reaches[OF True])
    have 1: "GetGitDiff b \<in> set (trace ?g) \<longrightarrow> b" for b
      using c before_generation_diff_events[of b env print_only]
        try_body_diff_events[of b env "''gemini''" model yes print_only "resolved_key env"
          "get_git_diff env True"]
      by (auto simp add: t)
    have 2: "StageAllChanges \<in> set (takeWhile (\<lambda>ev. ev \<noteq> GetGitDiff True) (trace ?g))"
      using before_generation_diff_events[of _ env print_only _ "?body @ t'"]
      by (simp add: t)
    have 3: "GenerateCommitMessage d \<in> set (trace ?g) \<longrightarrow> d = get_git_diff env True" for d
      using c before_generation_diff_events[of _ env print_only d]
        try_body_diff_events[of _ env "''gemini''" model yes print_only "resolved_key env"
          "get_git_diff env True" d]
      by (auto simp add: t)
    show ?thesis using 1 2 3 by blast
  qed
  show ?thesis using same rest by blast
qed

theorem staged_flag_inert_witness:
  "generate sample_env ''gemini'' None False True True
     = generate sample_env ''gemini'' None False False True
   \<and> GetGitDiff True \<in> set (trace (generate sample_env ''gemini'' None False False True))
   \<and> GetGitDiff False \<notin> set (trace (generate sample_env ''gemini'' None False False True))
   \<and> StageAllChanges \<in> set (takeWhile (\<lambda>ev. ev \<noteq> GetGitDiff True)
        (trace (generate sample_env ''gemini'' None False False True)))"
proof -
  have d: "GetGitDiff True \<in> set (trace (generate sample_env ''gemini'' None False False True))"
    by (simp add: generate_def sample_env_def truthy_def Let_def stage_events_def
          diff_events_def try_generate_def try_body_def)
  show ?thesis
    using d staged_flag_inert[of sample_env "''gemini''" None False False True True]
    by auto
qed

subsection \<open>Standard output\<close>

lemma stdout_writes_console:
  "\<forall>ev \<in> set t. \<exists>s. ev = ConsolePrint s \<or> ev = Traceback s \<Longrightarrow> stdout_writes t = []"
  by (induction t) auto

lemma stdout_writes_before_generation:
  "stdout_writes (before_generation env print_only) = []"
  by (simp add: before_generation_def stage_events_def diff_events_def)

lemma stdout_writes_try_body:
  "stdout_writes (fst (try_body env ''gemini'' model yes print_only (resolved_key env)
                         (get_git_diff env True)))
     = (if print_only
        then (case backend_result env model of Inl e \<Rightarrow> [] | Inr message \<Rightarrow> [message])
        else [])"
  by (simp add: try_body_def backend_result_def Let_def console_panel_def console_print_def
        print_error_def stdout_writes_append split: option.splits sum.splits prod.splits)

text \<open>
  C9. A run of \<open>generate\<close> without the print-only flag writes nothing to standard
  output, whatever path it takes. Over all runs, standard output receives something only
  in a print-only run that reaches the backend and gets a message from it, and then
  exactly that message; \<open>version\<close> writes nothing to standard output either.
\<close>

theorem stdout_only_in_print_only:
  "(\<not> print_only \<longrightarrow>
      stdout_writes (trace (generate env provider model yes staged print_only)) = [])
   \<and> stdout_writes (trace (generate env provider model yes staged print_only))
       = (if print_only \<and> reaches_generation env provider print_only
          then (case backend_result env model of Inl e \<Rightarrow> [] | Inr message \<Rightarrow> [message])
          else [])
   \<and> stdout_writes (trace version) = []"
proof -
  let ?g = "generate env provider model yes staged print_only"
  have w: "stdout_writes (trace ?g)
       = (if print_only \<and> reaches_generation env provider print_only
          then (case backend_result env model of Inl e \<Rightarrow> [] | Inr message \<Rightarrow> [message])
          else [])"
  proof (cases "reaches_generation env provider print_only")
    case False
    then show ?thesis
      using generate_stopped[OF False, of model yes staged] by simp
  next
    case True
    let ?body = "fst (try_body env ''gemini'' model yes print_only (resolved_key env)
                        (get_git_diff env True))"
    obtain t' where t: "trace ?g = before_generation env print_only @ ?body @ t'"
      and c: "\<forall>ev \<in> set t'. \<exists>s. ev = ConsolePrint s \<or> ev = Traceback s"
      using trace_try_generate[of "before_generation env print_only" env "''gemini''" model
          yes print_only "resolved_key env" "get_git_diff env True"]
      by (auto simp add: generate_reaches[OF True])
    show ?thesis
      using True
      by (simp add: t stdout_writes_append stdout_writes_before_generation
            stdout_writes_try_body stdout_writes_console[OF c])
  qed
  have v: "stdout_writes (trace version) = []"
    by (simp add: version_def)
  show ?thesis
    using v w by auto
qed

theorem stdout_only_in_print_only_witness:
  "stdout_writes (trace (generate sample_env ''gemini'' None True True False)) = []
   \<and> reaches_generation sample_env ''gemini'' True
   \<and> backend_result sample_env None = Inr ''feat: add X''
   \<and> stdout_writes (trace (generate sample_env ''gemini'' None True True True))
       = [''feat: add X'']"
proof -
  have r: "reaches_generation sample_env ''gemini'' True"
    by (simp add: reaches_generation_def sample_env_def truthy_def)
  have b: "backend_result sample_env None = Inr ''feat: add X''"
    by (simp add: backend_result_def sample_env_def)
  show ?thesis
    using r b stdout_only_in_print_only[of False sample_env "''gemini''" None True True]
      stdout_only_in_print_only[of True sample_env "''gemini''" None True True]
    by simp
qed

subsection \<open>Saving the entered key\<close>

lemma markup_ignores_save:
  "markup_error (env\<lparr>save_key_to_env := f\<rparr>) s = markup_error env s"
  by (simp add: markup_error_def)

lemma generate_ignores_save:
  "generate (env\<lparr>save_key_to_env := f\<rparr>) provider model yes staged print_only
     = generate env provider model yes staged print_only"
proof -
  let ?env = "env\<lparr>save_key_to_env := f\<rparr>"
  have c: "console_print ?env s = console_print env s" for s
    by (simp add: console_print_def markup_ignores_save)
  have n: "console_panel ?env m title border = console_panel env m title border"
    for m title border
    by (simp add: console_panel_def markup_ignores_save)
  have p: "print_error ?env m code = print_error env m code" for m code
    by (simp add: print_error_def c)
  have b: "try_body ?env p m y po k d = try_body env p m y po k d"
    for p m y po k d
    by (simp add: try_body_def Let_def c n p
          cong: option.case_cong sum.case_cong if_cong prod.case_cong)
  have h: "handlers ?env r = handlers env r" for r
    by (cases "(env, r)" rule: handlers.cases) (simp_all add: p)
  have t: "try_generate t ?env p m y po k d
             = try_generate t env p m y po k d" for t p m y po k d
    by (simp add: try_generate_def b h)
  show ?thesis
    by (simp add: generate_def t c p Let_def cong: if_cong)
qed

text \<open>
  C10. In an interactive run with no key configured and a non-empty entry at the prompt,
  what \<open>save_key_to_env\<close> returns has no influence on the run: the run is the same
  for every behaviour of that collaborator, the notice that the key was saved is printed
  right after the call, and the backend is constructed with the entered key.
\<close>

theorem key_saving_unchecked:
  assumes "is_git_repo env" and "stage_all_changes env" and "get_git_diff env True \<noteq> []"
    and "provider = ''gemini''" and "\<not> truthy (GEMINI_API_KEY env)"
    and "Prompt_ask env ''Please enter your gemini API Key'' = entered" and "entered \<noteq> []"
  shows "(\<forall>f. generate (env\<lparr>save_key_to_env := f\<rparr>) provider model yes staged False
               = generate env provider model yes staged False)
         \<and> (\<exists>t. trace (generate env provider model yes staged False)
                  = [IsGitRepo] @ stage_events False True @ diff_events False
                    @ [ConsolePrint ''[yellow]Missing GEMINI_API_KEY.[/yellow]'',
                       PromptAsk ''Please enter your gemini API Key'' True,
                       SaveKeyToEnv ''GEMINI_API_KEY'' entered,
                       ConsolePrint ''[green]API Key saved successfully to .env[/green]'',
                       StatusEnter
                         ''[bold green]Generating commit message with gemini...[/bold green]'',
                       NewLLMClient ''gemini'' model entered] @ t)"
proof -
  have r: "reaches_generation env provider False"
    using assms by (simp add: reaches_generation_def)
  have k: "resolved_key env = entered"
    using assms(5,6) by (simp add: resolved_key_def)
  obtain t' where t: "trace (generate env provider model yes staged False)
       = before_generation env False
         @ fst (try_body env ''gemini'' model yes False entered (get_git_diff env True)) @ t'"
    using trace_try_generate[of "before_generation env False" env "''gemini''" model
          yes False entered "get_git_diff env True"]
    by (auto simp add: generate_reaches[OF r] k)
  have b: "\<exists>u. fst (try_body env ''gemini'' model yes False entered (get_git_diff env True))
            = [StatusEnter ''[bold green]Generating commit message with gemini...[/bold green]'',
               NewLLMClient ''gemini'' model entered] @ u"
    by (simp add: try_body_def Let_def console_panel_def console_print_def print_error_def
          split: option.splits sum.splits prod.splits)
  then obtain u where u: "fst (try_body env ''gemini'' model yes False entered
                                 (get_git_diff env True))
            = [StatusEnter ''[bold green]Generating commit message with gemini...[/bold green]'',
               NewLLMClient ''gemini'' model entered] @ u"
    by blast
  have "trace (generate env provider model yes staged False)
                  = [IsGitRepo] @ stage_events False True @ diff_events False
                    @ [ConsolePrint ''[yellow]Missing GEMINI_API_KEY.[/yellow]'',
                       PromptAsk ''Please enter your gemini API Key'' True,
                       SaveKeyToEnv ''GEMINI_API_KEY'' entered,
                       ConsolePrint ''[green]API Key saved successfully to .env[/green]'',
                       StatusEnter
                         ''[bold green]Generating commit message with gemini...[/bold green]'',
                       NewLLMClient ''gemini'' model entered] @ (u @ t')"
    using assms(5) by (simp add: t u before_generation_def k)
  then show ?thesis
    using generate_ignores_save by blast
qed

theorem key_saving_unchecked_witness:
  "is_git_repo no_key_env \<and> stage_all_changes no_key_env
   \<and> get_git_diff no_key_env True \<noteq> [] \<and> \<not> truthy (GEMINI_API_KEY no_key_env)
   \<and> Prompt_ask no_key_env ''Please enter your gemini API Key'' = ''k2''
   \<and> \<not> save_key_to_env no_key_env ''GEMINI_API_KEY'' ''k2''
   \<and> generate (no_key_env\<lparr>save_key_to_env := (\<lambda>name v. True)\<rparr>) ''gemini'' None False True False
       = generate no_key_env ''gemini'' None False True False
   \<and> ConsolePrint ''[green]API Key saved successfully to .env[/green]''
        \<in> set (trace (generate no_key_env ''gemini'' None False True False))
   \<and> NewLLMClient ''gemini'' None ''k2''
        \<in> set (trace (generate no_key_env ''gemini'' None False True False))"
proof -
  have h: "is_git_repo no_key_env" "stage_all_changes no_key_env"
    "get_git_diff no_key_env True \<noteq> []" "''gemini'' = ''gemini''"
    "\<not> truthy (GEMINI_API_KEY no_key_env)"
    "Prompt_ask no_key_env ''Please enter your gemini API Key'' = ''k2''"
    "''k2'' \<noteq> []"
    by (simp_all add: no_key_env_def sample_env_def truthy_def)
  have s: "\<not> save_key_to_env no_key_env ''GEMINI_API_KEY'' ''k2''"
    by (simp add: no_key_env_def sample_env_def)
  show ?thesis
    using h s key_saving_unchecked[OF h, of None False True]
    by auto
qed

end
